theory Spec2Isabelle
  imports Main
begin

section \<open>Python values\<close>

text \<open>
  The engine works on user documents as the document store returns them: JSON
  values decoded into Python objects. \<open>pyval\<close> is that universe: \<open>None\<close>, booleans,
  integers, strings, lists and dictionaries. A dictionary is an association list in
  insertion order (the order Python iterates in). Strings are ASCII text; floating
  point numbers are left out.
\<close>

datatype pyval =
    PNone
  | PBool bool
  | PInt int
  | PStr string
  | PList "pyval list"
  | PDict "(pyval \<times> pyval) list"

text \<open>
  The exceptions the modelled code can raise. The \<open>ValueError\<close>s are told apart by
  what their message says: the three of \<open>class_auth.py\<close> (invalid role, user not
  found, user not a member of the class) and the store's refusal of a document
  without an \<open>id\<close>.
\<close>

datatype exn =
    TypeError
  | AttributeError
  | KeyError
  | InvalidRole string
  | UserNotFound string
  | NotAMember string string
  | MissingId

text \<open>Sequencing of computations that may raise: the first exception wins.\<close>

definition and_then :: "exn + 'a \<Rightarrow> ('a \<Rightarrow> exn + 'b) \<Rightarrow> exn + 'b" where
  "and_then r f = (case r of Inl e \<Rightarrow> Inl e | Inr x \<Rightarrow> f x)"

text \<open>Truth value testing (\<open>if x:\<close>, \<open>not x\<close>, \<open>x or y\<close>).\<close>

fun truthy :: "pyval \<Rightarrow> bool" where
  "truthy PNone = False"
| "truthy (PBool b) = b"
| "truthy (PInt i) = (i \<noteq> 0)"
| "truthy (PStr s) = (s \<noteq> [])"
| "truthy (PList xs) = (xs \<noteq> [])"
| "truthy (PDict kvs) = (kvs \<noteq> [])"

text \<open>Lists and dictionaries are unhashable: they cannot be dictionary keys or set members.\<close>

fun hashable :: "pyval \<Rightarrow> bool" where
  "hashable (PList xs) = False"
| "hashable (PDict kvs) = False"
| "hashable v = True"

text \<open>
  Python compares \<open>True\<close> and \<open>1\<close> (and \<open>False\<close> and \<open>0\<close>) as equal, and hashes
  them alike. \<open>norm_key\<close> picks the integer as the representative.
\<close>

fun norm_key :: "pyval \<Rightarrow> pyval" where
  "norm_key (PBool b) = PInt (if b then 1 else 0)"
| "norm_key v = v"

fun dict_lookup :: "pyval \<Rightarrow> (pyval \<times> pyval) list \<Rightarrow> pyval option" where
  "dict_lookup k [] = None"
| "dict_lookup k ((k', v) # kvs) =
     (if norm_key k' = norm_key k then Some v else dict_lookup k kvs)"

text \<open>The operator \<open>==\<close>: lists compare element by element, dictionaries key by key.\<close>

fun py_eq :: "pyval \<Rightarrow> pyval \<Rightarrow> bool" where
  "py_eq (PList xs) (PList ys) = list_all2 py_eq xs ys"
| "py_eq (PDict kvs) (PDict kws) =
     (length kvs = length kws \<and>
      (\<forall>(k, v) \<in> set kvs. case dict_lookup k kws of None \<Rightarrow> False | Some w \<Rightarrow> py_eq v w))"
| "py_eq (PList xs) _ = False"
| "py_eq (PDict kvs) _ = False"
| "py_eq _ (PList xs) = False"
| "py_eq _ (PDict kvs) = False"
| "py_eq a b = (norm_key a = norm_key b)"

text \<open>\<open>d.get(k, default)\<close> and \<open>k in d\<close> on a dictionary, for a string key.\<close>

definition dict_get :: "(pyval \<times> pyval) list \<Rightarrow> string \<Rightarrow> pyval \<Rightarrow> pyval" where
  "dict_get kvs k d = (case dict_lookup (PStr k) kvs of None \<Rightarrow> d | Some v \<Rightarrow> v)"

definition dict_has :: "(pyval \<times> pyval) list \<Rightarrow> string \<Rightarrow> bool" where
  "dict_has kvs k = (dict_lookup (PStr k) kvs \<noteq> None)"

text \<open>
  \<open>d[k] = v\<close>: an existing key keeps its place (and its key object), a new key goes
  to the end.
\<close>

fun dict_set :: "pyval \<Rightarrow> pyval \<Rightarrow> (pyval \<times> pyval) list \<Rightarrow> (pyval \<times> pyval) list" where
  "dict_set k v [] = [(k, v)]"
| "dict_set k v ((k', v') # kvs) =
     (if norm_key k' = norm_key k then (k', v) # kvs else (k', v') # dict_set k v kvs)"

text \<open>\<open>x.get(k, default)\<close> on any value: only a dictionary has the method.\<close>

fun py_get :: "pyval \<Rightarrow> string \<Rightarrow> pyval \<Rightarrow> exn + pyval" where
  "py_get (PDict kvs) k d = Inr (dict_get kvs k d)"
| "py_get _ k d = Inl AttributeError"

text \<open>\<open>str.lower()\<close> on ASCII text, and \<open>x.lower()\<close> on any value.\<close>

definition lower_char :: "char \<Rightarrow> char" where
  "lower_char c =
     (case map_of (zip ''ABCDEFGHIJKLMNOPQRSTUVWXYZ'' ''abcdefghijklmnopqrstuvwxyz'') c of
        None \<Rightarrow> c | Some l \<Rightarrow> l)"

definition lower :: "string \<Rightarrow> string" where
  "lower s = map lower_char s"

fun py_lower :: "pyval \<Rightarrow> exn + string" where
  "py_lower (PStr s) = Inr (lower s)"
| "py_lower _ = Inl AttributeError"

text \<open>Substring test, for \<open>t in s\<close> on two strings.\<close>

fun starts_with :: "string \<Rightarrow> string \<Rightarrow> bool" where
  "starts_with s [] = True"
| "starts_with [] (c # t) = False"
| "starts_with (a # s) (c # t) = (a = c \<and> starts_with s t)"

fun str_contains :: "string \<Rightarrow> string \<Rightarrow> bool" where
  "str_contains [] t = (t = [])"
| "str_contains (a # s) t = (starts_with (a # s) t \<or> str_contains s t)"

text \<open>
  \<open>x in c\<close>: membership in a list, key test on a dictionary, substring test on a
  string (where a left operand that is not a string raises); \<open>None\<close>, booleans and
  integers are not iterable.
\<close>

fun py_contains :: "pyval \<Rightarrow> pyval \<Rightarrow> exn + bool" where
  "py_contains (PList xs) x = Inr (list_ex (\<lambda>y. py_eq y x) xs)"
| "py_contains (PDict kvs) x =
     (if hashable x then Inr (dict_lookup x kvs \<noteq> None) else Inl TypeError)"
| "py_contains (PStr s) (PStr t) = Inr (str_contains s t)"
| "py_contains (PStr s) _ = Inl TypeError"
| "py_contains _ x = Inl TypeError"

section \<open>The user store\<close>

text \<open>
  The document store is an external collaborator with a keyed get and upsert. A
  store is a map from user id to document; \<open>db_get\<close> answers \<open>None\<close> for an id with
  no document, \<open>db_upsert\<close> files a document under its \<open>id\<close> field and refuses a
  document without one. Ids are strings: a value of another type names no document,
  and filing under one is a \<open>TypeError\<close>.
\<close>

type_synonym store = "string \<Rightarrow> pyval option"

fun db_get :: "store \<Rightarrow> pyval \<Rightarrow> pyval" where
  "db_get db (PStr uid) = (case db uid of None \<Rightarrow> PNone | Some doc \<Rightarrow> doc)"
| "db_get db _ = PNone"

definition db_upsert :: "store \<Rightarrow> pyval \<Rightarrow> exn + store" where
  "db_upsert db doc =
     and_then (py_get doc ''id'' PNone) (\<lambda>doc_id.
       case doc_id of
         PStr uid \<Rightarrow> if uid = [] then Inl MissingId else Inr (db(uid \<mapsto> doc))
       | _ \<Rightarrow> if truthy doc_id then Inl TypeError else Inl MissingId)"

section \<open>Class-level authorization (class\_auth.py)\<close>

text \<open>The permissions of each class-level role.\<close>

definition class_ROLE_PERMISSIONS :: "(string \<times> string list) list" where
  "class_ROLE_PERMISSIONS =
     [(''instructor'',
         [''manage_quizzes'', ''manage_tokens'', ''view_analytics'', ''manage_members'',
          ''take_quizzes'']),
      (''ta'',
         [''manage_quizzes'', ''manage_tokens'', ''view_analytics'', ''manage_members'',
          ''take_quizzes'']),
      (''student'', [''take_quizzes'', ''view_progress''])]"

text \<open>
  The loop over a membership list: the first entry that is a dictionary whose
  \<open>class_id\<close> equals the class decides; its \<open>role\<close> (or \<open>None\<close>) is returned.
\<close>

fun membership_role :: "pyval list \<Rightarrow> string \<Rightarrow> pyval option" where
  "membership_role [] class_id = None"
| "membership_role (PDict kvs # ms) class_id =
     (if py_eq (dict_get kvs ''class_id'' PNone) (PStr class_id)
      then Some (dict_get kvs ''role'' PNone)
      else membership_role ms class_id)"
| "membership_role (m # ms) class_id = membership_role ms class_id"

text \<open>The role inferred for the oldest shape, from the global \<open>role\<close> field.\<close>

definition infer_role :: "pyval \<Rightarrow> exn + pyval" where
  "infer_role user_doc =
     and_then (py_get user_doc ''role'' (PStr [])) (\<lambda>r.
     and_then (py_lower r) (\<lambda>global_role.
       if global_role \<in> set [''admin'', ''instructor''] then Inr (PStr ''instructor'')
       else if global_role \<in> set [''ta''] then Inr (PStr ''ta'')
       else Inr (PStr ''student'')))"

text \<open>The final fallback of \<open>get_user_class_role\<close>: one read of the store.\<close>

definition role_from_store :: "store \<Rightarrow> pyval \<Rightarrow> string \<Rightarrow> exn + pyval" where
  "role_from_store db user_doc class_id =
     and_then (py_get user_doc ''user_id'' PNone) (\<lambda>user_id.
       if \<not> truthy user_id then Inr PNone
       else let db_user = db_get db user_id in
         if \<not> truthy db_user then Inr PNone
         else
           and_then (py_get db_user ''class_memberships'' (PList [])) (\<lambda>db_cms.
             case (case db_cms of PList ms \<Rightarrow> membership_role ms class_id | _ \<Rightarrow> None) of
               Some r \<Rightarrow> Inr r
             | None \<Rightarrow>
                 and_then (py_get db_user ''classRoles'' (PDict [])) (\<lambda>db_class_roles.
                   case db_class_roles of
                     PDict kvs \<Rightarrow>
                       (case dict_lookup (PStr class_id) kvs of
                          Some r \<Rightarrow> Inr r | None \<Rightarrow> Inr PNone)
                   | _ \<Rightarrow> Inr PNone)))"

text \<open>
  \<open>get_user_class_role\<close>, after the admin test and the look at
  \<open>class_memberships\<close>: the intermediate shape, the oldest shape, then the store.
\<close>

definition role_from_legacy :: "store \<Rightarrow> pyval \<Rightarrow> string \<Rightarrow> pyval \<Rightarrow> exn + pyval" where
  "role_from_legacy db user_doc class_id class_memberships =
     and_then (py_get user_doc ''classRoles'' (PDict [])) (\<lambda>class_roles.
       case (case class_roles of PDict kvs \<Rightarrow> dict_lookup (PStr class_id) kvs | _ \<Rightarrow> None) of
         Some r \<Rightarrow> Inr r
       | None \<Rightarrow>
           and_then (py_get user_doc ''accessible_classes'' (PList [])) (\<lambda>accessible_classes.
           and_then (py_contains accessible_classes (PStr class_id)) (\<lambda>listed.
             if listed then infer_role user_doc
             else if \<not> truthy class_memberships \<and> \<not> truthy class_roles
                       \<and> \<not> truthy accessible_classes
               then role_from_store db user_doc class_id
             else Inr PNone)))"

definition get_user_class_role :: "store \<Rightarrow> pyval \<Rightarrow> string \<Rightarrow> exn + pyval" where
  "get_user_class_role db user_doc class_id =
     and_then (py_get user_doc ''roles'' (PList [])) (\<lambda>roles.
     and_then (py_contains roles (PStr ''admin'')) (\<lambda>is_admin.
       if is_admin then Inr (PStr ''instructor'')
       else
         and_then (py_get user_doc ''class_memberships'' (PDict [])) (\<lambda>class_memberships.
           case class_memberships of
             PList ms \<Rightarrow>
               (case membership_role ms class_id of
                  Some r \<Rightarrow> Inr r
                | None \<Rightarrow> role_from_legacy db user_doc class_id class_memberships)
           | PDict kvs \<Rightarrow>
               (case dict_lookup (PStr class_id) kvs of
                  Some (PDict m) \<Rightarrow> Inr (dict_get m ''role'' PNone)
                | Some membership \<Rightarrow> Inr membership
                | None \<Rightarrow> role_from_legacy db user_doc class_id class_memberships)
           | _ \<Rightarrow> role_from_legacy db user_doc class_id class_memberships)))"

definition get_role_permissions :: "pyval \<Rightarrow> exn + string list" where
  "get_role_permissions role =
     and_then (py_lower role) (\<lambda>r.
       Inr (case map_of class_ROLE_PERMISSIONS r of None \<Rightarrow> [] | Some ps \<Rightarrow> ps))"

definition user_has_class_permission :: "store \<Rightarrow> pyval \<Rightarrow> string \<Rightarrow> string \<Rightarrow> exn + bool" where
  "user_has_class_permission db user_doc class_id permission =
     and_then (py_get user_doc ''roles'' (PList [])) (\<lambda>roles.
     and_then (py_contains roles (PStr ''admin'')) (\<lambda>is_admin.
       if is_admin then Inr True
       else
         and_then (get_user_class_role db user_doc class_id) (\<lambda>role.
           if \<not> truthy role then Inr False
           else and_then (get_role_permissions role) (\<lambda>permissions.
                  Inr (permission \<in> set permissions)))))"


text \<open>Subscription \<open>x[k]\<close> and item assignment \<open>x[k] = v\<close> with a string key.\<close>

fun py_getitem :: "pyval \<Rightarrow> string \<Rightarrow> exn + pyval" where
  "py_getitem (PDict kvs) k =
     (case dict_lookup (PStr k) kvs of None \<Rightarrow> Inl KeyError | Some v \<Rightarrow> Inr v)"
| "py_getitem _ k = Inl TypeError"

fun py_setitem :: "pyval \<Rightarrow> string \<Rightarrow> pyval \<Rightarrow> exn + pyval" where
  "py_setitem (PDict kvs) k v = Inr (PDict (dict_set (PStr k) v kvs))"
| "py_setitem _ k v = Inl TypeError"

text \<open>
  \<open>update_class_role\<close>. The clock reading \<open>now\<close> is a parameter. The function
  returns its result dictionary and the store after the upsert.
\<close>

definition update_membership_entry ::
  "pyval \<Rightarrow> string \<Rightarrow> string \<Rightarrow> string \<Rightarrow> pyval \<Rightarrow> exn + (pyval \<times> pyval)" where
  "update_membership_entry user_doc now class_id new_role updated_by =
     and_then (py_getitem user_doc ''class_memberships'') (\<lambda>cms.
     and_then (py_getitem cms class_id) (\<lambda>entry.
     and_then (py_get entry ''role'' PNone) (\<lambda>old_role.
     and_then (py_setitem entry ''role'' (PStr (lower new_role))) (\<lambda>entry1.
     and_then (py_setitem entry1 ''updated_at'' (PStr now)) (\<lambda>entry2.
     and_then (py_setitem entry2 ''updated_by'' updated_by) (\<lambda>entry3.
     and_then (py_setitem cms class_id entry3) (\<lambda>cms'.
     and_then (py_setitem user_doc ''class_memberships'' cms') (\<lambda>user1.
       Inr (old_role, user1)))))))))"

definition update_classRoles :: "pyval \<Rightarrow> string \<Rightarrow> string \<Rightarrow> exn + pyval" where
  "update_classRoles user_doc class_id new_role =
     and_then (py_contains user_doc (PStr ''classRoles'')) (\<lambda>present.
       if \<not> present then Inr user_doc
       else
         and_then (py_getitem user_doc ''classRoles'') (\<lambda>class_roles.
         and_then (py_setitem class_roles class_id (PStr (lower new_role))) (\<lambda>class_roles'.
           py_setitem user_doc ''classRoles'' class_roles')))"

definition update_class_role ::
  "store \<Rightarrow> string \<Rightarrow> string \<Rightarrow> string \<Rightarrow> string \<Rightarrow> pyval \<Rightarrow> exn + (pyval \<times> store)" where
  "update_class_role db now user_id class_id new_role updated_by =
     (if lower new_role \<notin> set [''instructor'', ''ta'', ''grader'', ''student'']
      then Inl (InvalidRole new_role)
      else let user_doc = db_get db (PStr user_id) in
        if \<not> truthy user_doc then Inl (UserNotFound user_id)
        else
          and_then (py_contains user_doc (PStr ''class_memberships'')) (\<lambda>has_cms.
          and_then (if \<not> has_cms then Inr False
                    else and_then (py_getitem user_doc ''class_memberships'') (\<lambda>cms.
                           py_contains cms (PStr class_id))) (\<lambda>is_member.
            if \<not> is_member then Inl (NotAMember user_id class_id)
            else
              and_then (update_membership_entry user_doc now class_id new_role updated_by)
                (\<lambda>(old_role, user1).
              and_then (update_classRoles user1 class_id new_role) (\<lambda>user2.
              and_then (db_upsert db user2) (\<lambda>db'.
                Inr (PDict [(PStr ''success'', PBool True),
                            (PStr ''user_id'', PStr user_id),
                            (PStr ''class_id'', PStr class_id),
                            (PStr ''old_role'', old_role),
                            (PStr ''new_role'', PStr (lower new_role))], db')))))))"

section \<open>The role-update route (classroom/api\_routes.py)\<close>







section \<open>Membership formats (class\_membership\_utils.py)\<close>

text \<open>
  \<open>normalize_class_memberships\<close> builds the canonical list from the first
  populated source. Priority 1: the \<open>class_memberships\<close> list; every element that is
  a dictionary with a \<open>class_id\<close> gives a four-key entry.
\<close>

fun canonical_from_list :: "pyval list \<Rightarrow> pyval list" where
  "canonical_from_list [] = []"
| "canonical_from_list (PDict m # ms) =
     (if dict_has m ''class_id''
      then PDict [(PStr ''class_id'', dict_get m ''class_id'' PNone),
                  (PStr ''role'', dict_get m ''role'' (PStr ''student'')),
                  (PStr ''assigned_at'', dict_get m ''assigned_at'' PNone),
                  (PStr ''assigned_by'', dict_get m ''assigned_by'' PNone)]
           # canonical_from_list ms
      else canonical_from_list ms)"
| "canonical_from_list (m # ms) = canonical_from_list ms"

text \<open>Priority 2: \<open>class_memberships\<close> stored as a dictionary.\<close>

fun canonical_from_dict :: "(pyval \<times> pyval) list \<Rightarrow> pyval list" where
  "canonical_from_dict [] = []"
| "canonical_from_dict ((class_id, PDict v) # kvs) =
     PDict [(PStr ''class_id'', class_id), (PStr ''role'', dict_get v ''role'' (PStr ''student''))]
     # canonical_from_dict kvs"
| "canonical_from_dict ((class_id, v) # kvs) =
     PDict [(PStr ''class_id'', class_id), (PStr ''role'', if truthy v then v else PStr ''student'')]
     # canonical_from_dict kvs"

text \<open>Priority 3: the \<open>classRoles\<close> dictionary.\<close>

definition unwrap_role :: "pyval \<Rightarrow> pyval" where
  "unwrap_role role = (case role of PDict v \<Rightarrow> dict_get v ''role'' (PStr ''student'') | _ \<Rightarrow> role)"

fun canonical_from_roles :: "(pyval \<times> pyval) list \<Rightarrow> pyval list" where
  "canonical_from_roles [] = []"
| "canonical_from_roles ((class_id, role) # kvs) =
     PDict [(PStr ''class_id'', class_id),
            (PStr ''role'', if truthy (unwrap_role role) then unwrap_role role else PStr ''student'')]
     # canonical_from_roles kvs"

text \<open>Priority 4: \<open>accessible_classes\<close>, with the role inferred from the global role.\<close>

definition inferred_role :: "string \<Rightarrow> string" where
  "inferred_role global_role =
     (if global_role \<in> set [''admin'', ''instructor''] then ''instructor''
      else if global_role \<in> set [''ta'', ''grader''] then ''ta''
      else ''student'')"

fun canonical_from_accessible :: "string \<Rightarrow> pyval list \<Rightarrow> pyval list" where
  "canonical_from_accessible role [] = []"
| "canonical_from_accessible role (class_id # cs) =
     (if truthy class_id
      then PDict [(PStr ''class_id'', class_id), (PStr ''role'', PStr role)]
           # canonical_from_accessible role cs
      else canonical_from_accessible role cs)"

definition canonical_memberships :: "pyval \<Rightarrow> pyval \<Rightarrow> pyval \<Rightarrow> pyval \<Rightarrow> exn + pyval list" where
  "canonical_memberships user_doc class_memberships class_roles accessible_classes =
     (case class_memberships of
        PList (m # ms) \<Rightarrow> Inr (canonical_from_list (m # ms))
      | PDict (kv # kvs) \<Rightarrow> Inr (canonical_from_dict (kv # kvs))
      | _ \<Rightarrow>
        (case class_roles of
           PDict (kv # kvs) \<Rightarrow> Inr (canonical_from_roles (kv # kvs))
         | _ \<Rightarrow>
           (case accessible_classes of
              PList (c # cs) \<Rightarrow>
                and_then (py_get user_doc ''role'' (PStr [])) (\<lambda>r.
                and_then (py_lower r) (\<lambda>global_role.
                  Inr (canonical_from_accessible (inferred_role global_role) (c # cs))))
            | _ \<Rightarrow> Inr [])))"

text \<open>
  The loop that rebuilds the two legacy formats from the canonical list. A
  \<open>class_id\<close> that cannot be hashed makes the dictionary assignment raise.
\<close>

fun build_formats ::
  "pyval list \<Rightarrow> (pyval \<times> pyval) list \<Rightarrow> pyval list \<Rightarrow> exn + ((pyval \<times> pyval) list \<times> pyval list)" where
  "build_formats [] new_class_roles new_accessible_classes =
     Inr (new_class_roles, new_accessible_classes)"
| "build_formats (membership # ms) new_class_roles new_accessible_classes =
     and_then (py_getitem membership ''class_id'') (\<lambda>class_id.
     and_then (py_getitem membership ''role'') (\<lambda>role.
       if hashable class_id
       then build_formats ms (dict_set class_id role new_class_roles)
              (new_accessible_classes @ [class_id])
       else Inl TypeError))"

definition normalize_class_memberships :: "pyval \<Rightarrow> exn + pyval" where
  "normalize_class_memberships user_doc =
     (if \<not> truthy user_doc then Inr user_doc
      else
        and_then (py_get user_doc ''class_memberships'' (PList [])) (\<lambda>class_memberships.
        and_then (py_get user_doc ''classRoles'' (PDict [])) (\<lambda>class_roles.
        and_then (py_get user_doc ''accessible_classes'' (PList [])) (\<lambda>accessible_classes.
        and_then (canonical_memberships user_doc class_memberships class_roles accessible_classes)
          (\<lambda>canonical.
        and_then (build_formats canonical [] []) (\<lambda>(new_class_roles, new_accessible_classes).
        and_then (py_setitem user_doc ''class_memberships'' (PList canonical)) (\<lambda>user1.
        and_then (py_setitem user1 ''classRoles'' (PDict new_class_roles)) (\<lambda>user2.
          py_setitem user2 ''accessible_classes'' (PList new_accessible_classes)))))))))"

text \<open>
  \<open>check_format_consistency\<close>. Each inconsistency is a message built from the data
  kept here: the format and the classes it misses or has in excess, or the class
  and the two roles that differ. A Python set of class ids is the set of their
  representatives under \<open>norm_key\<close>.
\<close>

datatype issue =
    MissingClasses string "pyval set"
  | ExtraClasses string "pyval set"
  | RoleMismatch pyval pyval pyval

text \<open>The first loop: the classes and the roles recorded in the \<open>class_memberships\<close> list.\<close>

fun memberships_roles_of :: "pyval list \<Rightarrow> (pyval \<times> pyval) list \<Rightarrow> exn + (pyval \<times> pyval) list" where
  "memberships_roles_of [] acc = Inr acc"
| "memberships_roles_of (PDict m # ms) acc =
     (if dict_has m ''class_id''
      then (if hashable (dict_get m ''class_id'' PNone)
            then memberships_roles_of ms
                   (dict_set (dict_get m ''class_id'' PNone) (dict_get m ''role'' (PStr ''student'')) acc)
            else Inl TypeError)
      else memberships_roles_of ms acc)"
| "memberships_roles_of (m # ms) acc = memberships_roles_of ms acc"

text \<open>\<open>set(c for c in accessible_classes if c)\<close>.\<close>

fun accessible_set_of :: "pyval list \<Rightarrow> exn + pyval set" where
  "accessible_set_of [] = Inr {}"
| "accessible_set_of (c # cs) =
     (if truthy c
      then (if hashable c
            then and_then (accessible_set_of cs) (\<lambda>S. Inr (insert (norm_key c) S))
            else Inl TypeError)
      else accessible_set_of cs)"

definition compare_classes :: "string \<Rightarrow> pyval set \<Rightarrow> pyval set \<Rightarrow> issue list" where
  "compare_classes name classes all_classes =
     (if classes \<noteq> all_classes
      then (if all_classes - classes \<noteq> {} then [MissingClasses name (all_classes - classes)] else [])
         @ (if classes - all_classes \<noteq> {} then [ExtraClasses name (classes - all_classes)] else [])
      else [])"

text \<open>The last loop: roles that differ between \<open>class_memberships\<close> and \<open>classRoles\<close>.\<close>

fun role_mismatches :: "(pyval \<times> pyval) list \<Rightarrow> (pyval \<times> pyval) list \<Rightarrow> issue list" where
  "role_mismatches memberships_roles [] = []"
| "role_mismatches memberships_roles ((class_id, role) # kvs) =
     (case dict_lookup class_id memberships_roles of
        None \<Rightarrow> role_mismatches memberships_roles kvs
      | Some r \<Rightarrow>
          (if \<not> py_eq r role
           then RoleMismatch class_id r role # role_mismatches memberships_roles kvs
           else role_mismatches memberships_roles kvs))"

definition check_format_consistency :: "pyval \<Rightarrow> exn + (bool \<times> issue list)" where
  "check_format_consistency user_doc =
     and_then (py_get user_doc ''class_memberships'' (PList [])) (\<lambda>class_memberships.
     and_then (py_get user_doc ''classRoles'' (PDict [])) (\<lambda>class_roles.
     and_then (py_get user_doc ''accessible_classes'' (PList [])) (\<lambda>accessible_classes.
     and_then (case class_memberships of PList ms \<Rightarrow> memberships_roles_of ms [] | _ \<Rightarrow> Inr [])
       (\<lambda>memberships_roles.
     and_then (case accessible_classes of PList cs \<Rightarrow> accessible_set_of cs | _ \<Rightarrow> Inr {})
       (\<lambda>accessible_set.
       let memberships_classes = norm_key ` fst ` set memberships_roles;
           roles_classes = (case class_roles of PDict kvs \<Rightarrow> norm_key ` fst ` set kvs | _ \<Rightarrow> {});
           all_classes = memberships_classes \<union> roles_classes \<union> accessible_set;
           inconsistencies =
               compare_classes ''class_memberships'' memberships_classes all_classes
             @ compare_classes ''classRoles'' roles_classes all_classes
             @ compare_classes ''accessible_classes'' accessible_set all_classes
             @ (case class_roles of PDict kvs \<Rightarrow> role_mismatches memberships_roles kvs | _ \<Rightarrow> [])
       in Inr (inconsistencies = [], inconsistencies))))))"

section \<open>Role-based permissions (permissions.py)\<close>

text \<open>
  The role catalog: for each role the roles it inherits from and the permissions
  granted to it directly.
\<close>

definition ROLE_PERMISSIONS :: "(string \<times> string list \<times> string list) list" where
  "ROLE_PERMISSIONS =
     [(''admin'', [], [''*'']),
      (''instructor'', [''student''],
         [''quiz.view'', ''quiz.create'', ''quiz.modify'', ''quiz.delete'',
          ''student.view'', ''student.manage'', ''class.manage_enrollment'',
          ''role.grant_ta'', ''class.add_instructor'']),
      (''ta'', [''student''],
         [''quiz.view'', ''quiz.create'', ''quiz.modify'', ''student.view'']),
      (''student'', [], [''quiz.view'', ''quiz.attempt'', ''own_data.view''])]"

text \<open>Removing duplicates, the first occurrence of each permission staying in place.\<close>

fun unique_permissions :: "string list \<Rightarrow> string set \<Rightarrow> string list" where
  "unique_permissions [] seen = []"
| "unique_permissions (perm # ps) seen =
     (if perm \<notin> seen then perm # unique_permissions ps (insert perm seen)
      else unique_permissions ps seen)"

text \<open>
  The resolver walks the inheritance edges depth first. The set of visited roles is
  shared by all the calls of one walk, so it is passed in and handed back; a role
  met again contributes nothing. A role outside the catalog has no permissions and
  no parents.
\<close>

function get_role_permissions_with_inheritance ::
    "string \<Rightarrow> string set \<Rightarrow> string list \<times> string set"
  and inherited_permissions :: "string list \<Rightarrow> string set \<Rightarrow> string list \<times> string set"
where
  "get_role_permissions_with_inheritance role visited =
     (if role \<in> visited then ([], visited)
      else case map_of ROLE_PERMISSIONS role of
             None \<Rightarrow> ([], insert role visited)
           | Some (inherits, permissions) \<Rightarrow>
               (case inherited_permissions inherits (insert role visited) of
                  (parent_permissions, visited') \<Rightarrow>
                    (unique_permissions (permissions @ parent_permissions) {}, visited')))"
| "inherited_permissions [] visited = ([], visited)"
| "inherited_permissions (parent_role # rest) visited =
     (case get_role_permissions_with_inheritance parent_role visited of
        (parent_permissions, visited1) \<Rightarrow>
          (case inherited_permissions rest visited1 of
             (more, visited2) \<Rightarrow> (parent_permissions @ more, visited2)))"
  by pat_completeness auto

text \<open>The walk only adds to the visited set; with that, every walk ends.\<close>

lemma visited_grows:
  "get_role_permissions_with_inheritance_inherited_permissions_dom (Inl (role, visited)) \<Longrightarrow>
     visited \<subseteq> snd (get_role_permissions_with_inheritance role visited)"
  "get_role_permissions_with_inheritance_inherited_permissions_dom (Inr (roles, visited)) \<Longrightarrow>
     visited \<subseteq> snd (inherited_permissions roles visited)"
proof (induction role visited and roles visited
       rule: get_role_permissions_with_inheritance_inherited_permissions.pinduct)
  case (1 role visited)
  show ?case
  proof (cases "role \<in> visited")
    case True
    with 1(1) show ?thesis by (simp add: get_role_permissions_with_inheritance.psimps)
  next
    case False
    show ?thesis
    proof (cases "map_of ROLE_PERMISSIONS role")
      case None
      with False 1(1) show ?thesis
        by (auto simp: get_role_permissions_with_inheritance.psimps)
    next
      case (Some cfg)
      obtain inherits permissions where cfg: "cfg = (inherits, permissions)" by (cases cfg)
      have "insert role visited \<subseteq> snd (inherited_permissions inherits (insert role visited))"
        using 1(2)[OF False Some cfg[symmetric]] .
      with False Some cfg 1(1) show ?thesis
        by (auto simp: get_role_permissions_with_inheritance.psimps split: prod.splits)
    qed
  qed
next
  case (2 visited)
  then show ?case by (simp add: inherited_permissions.psimps)
next
  case (3 parent_role rest visited)
  obtain ps v1 where r1: "get_role_permissions_with_inheritance parent_role visited = (ps, v1)"
    by (cases "get_role_permissions_with_inheritance parent_role visited")
  have a: "visited \<subseteq> v1" using 3(2) r1 by simp
  have b: "v1 \<subseteq> snd (inherited_permissions rest v1)"
    using 3(3)[OF r1[symmetric]] .
  from a b r1 3(1) show ?case
    by (auto simp: inherited_permissions.psimps split: prod.splits)
qed

termination get_role_permissions_with_inheritance
proof (relation "measures
    [\<lambda>x. case x of Inl (role, visited) \<Rightarrow> card (fst ` set ROLE_PERMISSIONS - visited)
               | Inr (roles, visited) \<Rightarrow> card (fst ` set ROLE_PERMISSIONS - visited),
     \<lambda>x. case x of Inl (role, visited) \<Rightarrow> 0 | Inr (roles, visited) \<Rightarrow> Suc (length roles)]",
    goal_cases)
  case 1
  then show ?case by simp
next
  case (2 role visited cfg inherits permissions)
  then have "role \<in> fst ` set ROLE_PERMISSIONS"
    by (metis map_of_SomeD fst_conv image_eqI)
  with 2 have "card (fst ` set ROLE_PERMISSIONS - insert role visited)
      < card (fst ` set ROLE_PERMISSIONS - visited)"
    by (intro psubset_card_mono) auto
  then show ?case by simp
next
  case (3 parent_role rest visited)
  then show ?case by simp
next
  case (4 parent_role rest visited x1 x2)
  then have "visited \<subseteq> x2"
    using visited_grows(1)[of parent_role visited] by (metis snd_conv)
  then have "card (fst ` set ROLE_PERMISSIONS - x2) \<le> card (fst ` set ROLE_PERMISSIONS - visited)"
    by (intro card_mono) auto
  then show ?case by auto
qed

text \<open>One resolver call from outside, with a fresh visited set, and the test made on its result.\<close>

definition role_grants :: "string \<Rightarrow> string \<Rightarrow> bool" where
  "role_grants role permission =
     (let role_permissions = fst (get_role_permissions_with_inheritance role {})
      in ''*'' \<in> set role_permissions \<or> permission \<in> set role_permissions)"

text \<open>\<open>[r.lower() for r in user_roles if r]\<close>.\<close>

fun lower_roles :: "pyval list \<Rightarrow> exn + string list" where
  "lower_roles [] = Inr []"
| "lower_roles (r # rs) =
     (if truthy r
      then and_then (py_lower r) (\<lambda>l. and_then (lower_roles rs) (\<lambda>ls. Inr (l # ls)))
      else lower_roles rs)"

text \<open>What a \<open>for\<close> loop or a comprehension iterates over.\<close>

fun py_iter :: "pyval \<Rightarrow> exn + pyval list" where
  "py_iter (PList xs) = Inr xs"
| "py_iter (PDict kvs) = Inr (map fst kvs)"
| "py_iter (PStr s) = Inr (map (\<lambda>c. PStr [c]) s)"
| "py_iter _ = Inl TypeError"

definition normalized_roles :: "pyval \<Rightarrow> exn + string list" where
  "normalized_roles user_roles =
     and_then (case user_roles of PStr s \<Rightarrow> Inr [PStr s] | _ \<Rightarrow> py_iter user_roles) lower_roles"

text \<open>Step 2 of \<open>has_permission\<close>: the class-scoped check, for a non-empty \<open>class_id\<close>.\<close>

definition class_scoped_grant :: "pyval \<Rightarrow> string \<Rightarrow> string \<Rightarrow> exn + bool" where
  "class_scoped_grant user_doc permission class_id =
     and_then (py_get user_doc ''classRoles'' (PDict [])) (\<lambda>class_roles.
     and_then (case class_roles of
                 PDict kvs \<Rightarrow>
                   and_then (py_lower (dict_get kvs class_id (PStr []))) (\<lambda>class_role.
                     Inr (class_role \<noteq> [] \<and>
                          role_grants (if class_role = ''user'' then ''student'' else class_role)
                            permission))
               | _ \<Rightarrow> Inr False) (\<lambda>granted.
       if granted then Inr True
       else if \<not> truthy class_roles
       then and_then (py_get user_doc ''access'' (PList [])) (\<lambda>access.
            and_then (py_contains access (PStr class_id)) (\<lambda>listed.
              Inr (listed \<and> role_grants ''student'' permission)))
       else Inr False))"

definition has_permission :: "pyval \<Rightarrow> string \<Rightarrow> string option \<Rightarrow> exn + bool" where
  "has_permission user_doc permission class_id =
     (if \<not> truthy user_doc then Inr False
      else
        and_then (py_get user_doc ''roles'' (PList [])) (\<lambda>roles.
        and_then (normalized_roles roles) (\<lambda>user_roles.
          if ''admin'' \<in> set user_roles then Inr True
          else
            and_then (py_get user_doc ''role'' (PStr [])) (\<lambda>r.
            and_then (py_lower r) (\<lambda>legacy_role.
              if legacy_role = ''admin'' then Inr True
              else
                and_then (case class_id of
                            None \<Rightarrow> Inr False
                          | Some c \<Rightarrow> if c = [] then Inr False
                                      else class_scoped_grant user_doc permission c) (\<lambda>granted.
                  if granted then Inr True
                  else if legacy_role \<noteq> [] \<and> legacy_role \<noteq> ''user''
                          \<and> role_grants legacy_role permission then Inr True
                  else Inr (list_ex (\<lambda>role. role \<noteq> ''admin'' \<and>
                              role_grants (if role = ''user'' then ''student'' else role) permission)
                            user_roles)))))))"

section \<open>The enrollment backfill (scripts/migrate\_student\_enrollments.py)\<close>

text \<open>
  \<open>analyze_user_enrollment\<close>: the first membership whose \<open>class_id\<close> is the course
  decides whether a student enrollment is to be added.
\<close>

fun analyze_memberships :: "pyval list \<Rightarrow> string \<Rightarrow> exn + (bool \<times> string)" where
  "analyze_memberships [] course = Inr (True, ''missing_enrollment'')"
| "analyze_memberships (membership # ms) course =
     and_then (py_get membership ''class_id'' PNone) (\<lambda>class_id.
       if py_eq class_id (PStr course)
       then and_then (py_get membership ''role'' (PStr [])) (\<lambda>r.
            and_then (py_lower r) (\<lambda>role.
              if role \<in> set [''instructor'', ''ta''] then Inr (False, ''already_'' @ role)
              else if role = ''student'' then Inr (False, ''already_student'')
              else Inr (True, ''unknown_role_'' @ role)))
       else analyze_memberships ms course)"

definition analyze_user_enrollment :: "pyval \<Rightarrow> string \<Rightarrow> exn + (bool \<times> string)" where
  "analyze_user_enrollment user_doc course =
     and_then (py_get user_doc ''class_memberships'' (PList [])) (\<lambda>class_memberships.
     and_then (py_iter class_memberships) (\<lambda>ms. analyze_memberships ms course))"

text \<open>The counters of the run, and an update queued for step 3.\<close>

record stats =
  total :: nat
  user_not_found :: nat
  already_instructor :: nat
  already_ta :: nat
  already_student :: nat
  unknown_role :: nat
  needs_enrollment :: nat
  updated :: nat
  errors :: nat

record update =
  upd_user_id :: string
  upd_user :: pyval
  upd_course :: string
  submission_count :: nat

text \<open>\<open>stats[f'already_{role}'] += 1\<close>, a \<open>KeyError\<close> for a counter that does not exist.\<close>

definition count_already :: "string \<Rightarrow> stats \<Rightarrow> exn + stats" where
  "count_already reason st =
     (if reason = ''already_instructor'' then Inr (st\<lparr>already_instructor := already_instructor st + 1\<rparr>)
      else if reason = ''already_ta'' then Inr (st\<lparr>already_ta := already_ta st + 1\<rparr>)
      else if reason = ''already_student'' then Inr (st\<lparr>already_student := already_student st + 1\<rparr>)
      else Inl KeyError)"

text \<open>
  Step 2: every (student, course, count) row is analyzed against the user read
  from the store. Nothing is written here; an exception ends the run.
\<close>

fun process_enrollments ::
  "store \<Rightarrow> (string \<times> string \<times> nat) list \<Rightarrow> stats \<Rightarrow> update list \<Rightarrow> exn + (stats \<times> update list)" where
  "process_enrollments db [] st updates_to_apply = Inr (st, updates_to_apply)"
| "process_enrollments db ((student, crs, n) # rest) st updates_to_apply =
     (let user_doc = db_get db (PStr student) in
      if \<not> truthy user_doc
      then process_enrollments db rest (st\<lparr>user_not_found := user_not_found st + 1\<rparr>)
             updates_to_apply
      else
        and_then (analyze_user_enrollment user_doc crs) (\<lambda>(needs, reason).
          if \<not> needs
          then (if starts_with reason ''already_''
                then and_then (count_already reason st) (\<lambda>st'.
                       process_enrollments db rest st' updates_to_apply)
                else process_enrollments db rest (st\<lparr>unknown_role := unknown_role st + 1\<rparr>)
                       updates_to_apply)
          else process_enrollments db rest (st\<lparr>needs_enrollment := needs_enrollment st + 1\<rparr>)
                 (updates_to_apply @
                    [\<lparr>upd_user_id = student, upd_user = user_doc, upd_course = crs,
                      submission_count = n\<rparr>])))"

text \<open>\<open>x.append(v)\<close>: only a list has the method.\<close>

fun py_append :: "pyval \<Rightarrow> pyval \<Rightarrow> exn + pyval" where
  "py_append (PList xs) v = Inr (PList (xs @ [v]))"
| "py_append _ v = Inl AttributeError"

text \<open>
  Step 3, one update: the student entry is appended to the user read in step 2 and
  that document replaces the stored one.
\<close>

definition apply_update :: "store \<Rightarrow> update \<Rightarrow> exn + store" where
  "apply_update db u =
     and_then (py_contains (upd_user u) (PStr ''class_memberships'')) (\<lambda>present.
     and_then (if present then Inr (upd_user u)
               else py_setitem (upd_user u) ''class_memberships'' (PList [])) (\<lambda>user1.
     and_then (py_getitem user1 ''class_memberships'') (\<lambda>cms.
     and_then (py_append cms (PDict [(PStr ''class_id'', PStr (upd_course u)),
                                     (PStr ''role'', PStr ''student'')])) (\<lambda>cms'.
     and_then (py_setitem user1 ''class_memberships'' cms') (\<lambda>user2.
       Inr (db(upd_user_id u \<mapsto> user2)))))))"

text \<open>An update that raises is counted as an error and the loop goes on.\<close>

fun apply_updates :: "store \<Rightarrow> update list \<Rightarrow> stats \<Rightarrow> store \<times> stats" where
  "apply_updates db [] st = (db, st)"
| "apply_updates db (u # us) st =
     (case apply_update db u of
        Inl e \<Rightarrow> apply_updates db us (st\<lparr>errors := errors st + 1\<rparr>)
      | Inr db' \<Rightarrow> apply_updates db' us (st\<lparr>updated := updated st + 1\<rparr>))"

text \<open>
  \<open>migrate_enrollments\<close>, on the rows \<open>get_enrollments_from_answers\<close> returned. The
  result is what the run reports (the exception that ended it, or the counters and
  the queued updates) and the store it leaves behind. Console output is not part
  of the model.
\<close>

definition migrate_enrollments ::
  "store \<Rightarrow> bool \<Rightarrow> (string \<times> string \<times> nat) list \<Rightarrow> (exn + (stats \<times> update list)) \<times> store" where
  "migrate_enrollments db dry_run enrollments =
     (case process_enrollments db enrollments
             \<lparr>total = length enrollments, user_not_found = 0, already_instructor = 0,
              already_ta = 0, already_student = 0, unknown_role = 0, needs_enrollment = 0,
              updated = 0, errors = 0\<rparr> [] of
        Inl e \<Rightarrow> (Inl e, db)
      | Inr (st, updates_to_apply) \<Rightarrow>
          if updates_to_apply \<noteq> [] \<and> \<not> dry_run
          then (case apply_updates db updates_to_apply st of
                  (db', st') \<Rightarrow> (Inr (st', updates_to_apply), db'))
          else (Inr (st, updates_to_apply), db))"

section \<open>Notions used in the statements\<close>

text \<open>
  Reading a field of a membership entry the way the code does (\<open>m.get(k, d)\<close> on an
  entry that is a dictionary), and the entries the list branch of the normalizer
  keeps: dictionaries with a \<open>class_id\<close> that can be a dictionary key.
\<close>

fun entry_get :: "pyval \<Rightarrow> string \<Rightarrow> pyval \<Rightarrow> pyval" where
  "entry_get (PDict e) k d = dict_get e k d"
| "entry_get m k d = d"

fun valid_entry :: "pyval \<Rightarrow> bool" where
  "valid_entry (PDict e) = (dict_has e ''class_id'' \<and> hashable (dict_get e ''class_id'' PNone))"
| "valid_entry m = False"

text \<open>The four-key entry the normalizer writes for a kept entry.\<close>

definition canonical_entry :: "pyval \<Rightarrow> pyval" where
  "canonical_entry m =
     PDict [(PStr ''class_id'', entry_get m ''class_id'' PNone),
            (PStr ''role'', entry_get m ''role'' (PStr ''student'')),
            (PStr ''assigned_at'', entry_get m ''assigned_at'' PNone),
            (PStr ''assigned_by'', entry_get m ''assigned_by'' PNone)]"

text \<open>
  The role the \<open>class_memberships\<close> list records for a class: that of the last entry
  for the class (a dictionary with that \<open>class_id\<close>, whatever other keys it has), and
  \<open>student\<close> when that entry has no role.
\<close>

fun recorded_role :: "pyval list \<Rightarrow> pyval \<Rightarrow> pyval option" where
  "recorded_role [] k = None"
| "recorded_role (PDict e # ms) k =
     (case recorded_role ms k of
        Some r \<Rightarrow> Some r
      | None \<Rightarrow>
          if dict_has e ''class_id'' \<and> norm_key (dict_get e ''class_id'' PNone) = norm_key k
          then Some (dict_get e ''role'' (PStr ''student''))
          else None)"
| "recorded_role (m # ms) k = recorded_role ms k"

text \<open>
  The entries of a membership list that are for class \<open>K\<close>, and what it means for
  a stored user to keep the role \<open>r0\<close> there: the stored \<open>class_memberships\<close> is a
  list in which the entry deciding the role for \<open>K\<close> still gives \<open>r0\<close> and the
  entries for \<open>K\<close> are the ones of the list \<open>ms\<close> the user had before.
\<close>

fun for_class :: "string \<Rightarrow> pyval \<Rightarrow> bool" where
  "for_class K (PDict e) = py_eq (dict_get e ''class_id'' PNone) (PStr K)"
| "for_class K m = False"

definition keeps_role :: "pyval list \<Rightarrow> string \<Rightarrow> string \<Rightarrow> pyval option \<Rightarrow> bool" where
  "keeps_role ms K r0 stored =
     (case stored of
        Some (PDict kvs') \<Rightarrow>
          (case dict_get kvs' ''class_memberships'' (PList []) of
             PList ms' \<Rightarrow> membership_role ms' K = Some (PStr r0)
                          \<and> filter (for_class K) ms' = filter (for_class K) ms
           | _ \<Rightarrow> False)
      | _ \<Rightarrow> False)"



text \<open>The two shapes of the entries the normalizer builds: two keys, or four.\<close>

fun canon_shaped :: "pyval \<Rightarrow> bool" where
  "canon_shaped (PDict [(k1, c), (k2, r)]) = (k1 = PStr ''class_id'' \<and> k2 = PStr ''role'')"
| "canon_shaped (PDict [(k1, c), (k2, r), (k3, a), (k4, b)]) =
     (k1 = PStr ''class_id'' \<and> k2 = PStr ''role''
      \<and> k3 = PStr ''assigned_at'' \<and> k4 = PStr ''assigned_by'')"
| "canon_shaped m = False"

section \<open>Facts about values and dictionaries\<close>

lemmas py_simps = and_then_def dict_get_def dict_has_def lower_def lower_char_def

lemma py_eq_str [simp]: "py_eq (PStr s) v = (v = PStr s)"
  by (cases v) auto

lemma py_eq_str2 [simp]: "py_eq v (PStr s) = (v = PStr s)"
  by (cases v) auto

lemma dict_lookup_dict_set:
  "dict_lookup (PStr k) (dict_set (PStr c) v kvs)
     = (if k = c then Some v else dict_lookup (PStr k) kvs)"
  by (induction kvs) auto

lemma dict_lookup_dict_set_any:
  "dict_lookup k (dict_set c v kvs)
     = (if norm_key c = norm_key k then Some v else dict_lookup k kvs)"
  by (induction kvs) auto

lemma dict_get_lookup:
  "dict_get kvs k d = v \<Longrightarrow> v \<noteq> d \<Longrightarrow> dict_lookup (PStr k) kvs = Some v"
  by (auto simp: dict_get_def split: option.splits)


lemma dict_set_keys:
  "norm_key ` fst ` set (dict_set k v kvs) = insert (norm_key k) (norm_key ` fst ` set kvs)"
proof (induction kvs)
  case Nil
  then show ?case by simp
next
  case (Cons kv kvs)
  obtain k' v' where kv: "kv = (k', v')" by (cases kv)
  show ?case
  proof (cases "norm_key k' = norm_key k")
    case True
    then show ?thesis by (simp add: kv)
  next
    case False
    then show ?thesis using Cons.IH by (simp add: kv insert_commute)
  qed
qed

lemma foldl_dict_set_keys:
  "norm_key ` fst ` set (foldl (\<lambda>R m. dict_set (f m) (g m) R) R ms)
     = norm_key ` fst ` set R \<union> norm_key ` f ` set ms"
  by (induction ms arbitrary: R) (auto simp: dict_set_keys)

lemma dict_get_dict_set:
  "dict_get (dict_set (PStr c) v kvs) k d = (if k = c then v else dict_get kvs k d)"
  by (simp add: dict_get_def dict_lookup_dict_set)

section \<open>Evaluation on concrete records\<close>

text \<open>
  Claim C2 says that a principal with no global roles and the canonical membership
  \<open>{class_id: "cda", role: "ta"}\<close> is denied \<open>manage_members\<close> for class "cda". The
  class-level check does not answer false there.
\<close>

theorem ta_manage_members_counterexample:
  "user_has_class_permission Map.empty
     (PDict [(PStr ''roles'', PList []),
             (PStr ''class_memberships'',
              PList [PDict [(PStr ''class_id'', PStr ''cda''), (PStr ''role'', PStr ''ta'')]])])
     ''cda'' ''manage_members'' \<noteq> Inr False"
  by (simp add: user_has_class_permission_def get_user_class_role_def get_role_permissions_def
      class_ROLE_PERMISSIONS_def py_simps)

text \<open>
  Claim C2, amended. For that principal the class-level check grants
  \<open>manage_quizzes\<close> for class "cda" and grants \<open>manage_members\<close> as well: the
  class-level catalog gives \<open>ta\<close> the permissions it gives \<open>instructor\<close>.
\<close>

theorem ta_granted_manage_members:
  "user_has_class_permission db
     (PDict [(PStr ''roles'', PList []),
             (PStr ''class_memberships'',
              PList [PDict [(PStr ''class_id'', PStr ''cda''), (PStr ''role'', PStr ''ta'')]])])
     ''cda'' ''manage_quizzes'' = Inr True
   \<and> user_has_class_permission db
     (PDict [(PStr ''roles'', PList []),
             (PStr ''class_memberships'',
              PList [PDict [(PStr ''class_id'', PStr ''cda''), (PStr ''role'', PStr ''ta'')]])])
     ''cda'' ''manage_members'' = Inr True
   \<and> get_role_permissions (PStr ''ta'') = get_role_permissions (PStr ''instructor'')"
  by (simp add: user_has_class_permission_def get_user_class_role_def get_role_permissions_def
      class_ROLE_PERMISSIONS_def py_simps)

text \<open>
  Claim C5. The consistency checker is to accept every normalized record. A
  membership whose \<open>class_id\<close> is the empty string is kept by the normalizer in all
  three formats, and the checker, which drops empty ids from \<open>accessible_classes\<close>
  only, reports the normalized record as inconsistent.
\<close>

theorem check_rejects_normalized_empty_class_id:
  "normalize_class_memberships
     (PDict [(PStr ''class_memberships'',
              PList [PDict [(PStr ''class_id'', PStr []), (PStr ''role'', PStr ''student'')]])])
   = Inr (PDict [(PStr ''class_memberships'',
                  PList [PDict [(PStr ''class_id'', PStr []), (PStr ''role'', PStr ''student''),
                                (PStr ''assigned_at'', PNone), (PStr ''assigned_by'', PNone)]]),
                 (PStr ''classRoles'', PDict [(PStr [], PStr ''student'')]),
                 (PStr ''accessible_classes'', PList [PStr []])])
   \<and> check_format_consistency
     (PDict [(PStr ''class_memberships'',
                  PList [PDict [(PStr ''class_id'', PStr []), (PStr ''role'', PStr ''student''),
                                (PStr ''assigned_at'', PNone), (PStr ''assigned_by'', PNone)]]),
                 (PStr ''classRoles'', PDict [(PStr [], PStr ''student'')]),
                 (PStr ''accessible_classes'', PList [PStr []])])
   = Inr (False, [MissingClasses ''accessible_classes'' {PStr []}])"
  by (simp add: normalize_class_memberships_def canonical_memberships_def
      check_format_consistency_def compare_classes_def py_simps)

text \<open>
  Claim C9. A role update for a stored user whose \<open>class_memberships\<close> is the
  canonical list and holds an entry for the class is to succeed. \<open>update_class_role\<close>
  tests \<open>class_id in user['class_memberships']\<close>, which on a list of entries compares
  the class id with each entry, and raises the not-a-member error.
\<close>

theorem update_class_role_list_shape:
  "update_class_role
     (db(''u1'' \<mapsto> PDict [(PStr ''id'', PStr ''u1''),
        (PStr ''class_memberships'',
         PList [PDict [(PStr ''class_id'', PStr ''cda''), (PStr ''role'', PStr ''student'')]]),
        (PStr ''classRoles'', PDict [(PStr ''cda'', PStr ''student'')])]))
     now ''u1'' ''cda'' ''ta'' updated_by
   = Inl (NotAMember ''u1'' ''cda'')"
  by (simp add: update_class_role_def py_simps)

text \<open>
  Claim C10. \<open>has_permission\<close> and the normalizer are to return a value on every
  record, reading a malformed representation as empty. A class role stored in the
  nested shape \<open>{role: ...}\<close> makes \<open>has_permission\<close> raise, and a \<open>role\<close> field
  holding \<open>None\<close> makes the normalizer raise when it infers roles for
  \<open>accessible_classes\<close>.
\<close>

theorem malformed_input_raises:
  "has_permission
     (PDict [(PStr ''roles'', PList []),
             (PStr ''classRoles'', PDict [(PStr ''cda'', PDict [(PStr ''role'', PStr ''ta'')])])])
     ''quiz.view'' (Some ''cda'') = Inl AttributeError
   \<and> normalize_class_memberships
     (PDict [(PStr ''accessible_classes'', PList [PStr ''cda'']), (PStr ''role'', PNone)])
     = Inl AttributeError"
  by (simp add: has_permission_def normalized_roles_def class_scoped_grant_def
      normalize_class_memberships_def canonical_memberships_def py_simps)

section \<open>The admin short-circuit\<close>

lemma lower_roles_strings:
  "lower_roles (map PStr names) = Inr (map lower (filter (\<lambda>n. n \<noteq> []) names))"
  by (induction names) (simp_all add: and_then_def)

lemma lower_admin_nonempty: "lower n = ''admin'' \<Longrightarrow> n \<noteq> []"
  by (auto simp: lower_def)

text \<open>
  Claim C1. For a principal record whose global roles (a list of role names)
  contain \<open>admin\<close> in any letter case, or whose legacy \<open>role\<close> field is \<open>admin\<close> in
  any letter case, \<open>has_permission\<close> returns true for every capability and every
  class id, also for no class id and for a class that appears in no membership.
\<close>

theorem admin_short_circuit:
  assumes roles: "dict_get kvs ''roles'' (PList []) = PList (map PStr names)"
    and admin: "''admin'' \<in> set (map lower names)
        \<or> (case dict_get kvs ''role'' (PStr []) of PStr s \<Rightarrow> lower s = ''admin'' | _ \<Rightarrow> False)"
  shows "has_permission (PDict kvs) c k = Inr True"
proof -
  have ne: "kvs \<noteq> []"
  proof
    assume "kvs = []"
    with roles admin show False by (auto simp: dict_get_def lower_def)
  qed
  have nr: "normalized_roles (PList (map PStr names))
              = Inr (map lower (filter (\<lambda>n. n \<noteq> []) names))"
    by (simp add: normalized_roles_def and_then_def lower_roles_strings)
  show ?thesis
  proof (cases "''admin'' \<in> set (map lower names)")
    case True
    then have "''admin'' \<in> set (map lower (filter (\<lambda>n. n \<noteq> []) names))"
      using lower_admin_nonempty by force
    with ne roles nr show ?thesis
      by (simp add: has_permission_def and_then_def)
  next
    case False
    with admin obtain s where s: "dict_get kvs ''role'' (PStr []) = PStr s" "lower s = ''admin''"
      by (auto split: pyval.splits)
    with ne roles nr show ?thesis
      by (simp add: has_permission_def and_then_def)
  qed
qed

text \<open>
  Claim C1, on two records: an admin by the \<open>roles\<close> list asking about a class
  nobody is a member of, and an admin by the legacy \<open>role\<close> field with no class.
\<close>

theorem admin_short_circuit_witness:
  "dict_get [(PStr ''id'', PStr ''root''), (PStr ''roles'', PList [PStr ''admin''])]
      ''roles'' (PList []) = PList (map PStr [''admin''])
   \<and> has_permission
     (PDict [(PStr ''id'', PStr ''root''), (PStr ''roles'', PList [PStr ''admin''])])
     ''manage_members'' (Some ''no_such_class'') = Inr True
   \<and> has_permission
     (PDict [(PStr ''id'', PStr ''old''), (PStr ''role'', PStr ''Admin'')])
     ''quiz.delete'' None = Inr True"
proof -
  have a: "has_permission
     (PDict [(PStr ''id'', PStr ''root''), (PStr ''roles'', PList [PStr ''admin''])])
     ''manage_members'' (Some ''no_such_class'') = Inr True"
    using admin_short_circuit
      [of "[(PStr ''id'', PStr ''root''), (PStr ''roles'', PList [PStr ''admin''])]"
        "[''admin'']" "''manage_members''" "Some ''no_such_class''"]
    by (simp add: py_simps)
  have b: "has_permission
     (PDict [(PStr ''id'', PStr ''old''), (PStr ''role'', PStr ''Admin'')])
     ''quiz.delete'' None = Inr True"
    using admin_short_circuit
      [of "[(PStr ''id'', PStr ''old''), (PStr ''role'', PStr ''Admin'')]"
        "[]" "''quiz.delete''" None]
    by (simp add: py_simps)
  from a b show ?thesis by (simp add: py_simps)
qed

section \<open>Self-modification\<close>




section \<open>Role mismatches\<close>

lemma memberships_roles_of_lookup:
  "memberships_roles_of ms acc = Inr mr \<Longrightarrow>
   dict_lookup k mr = (case recorded_role ms k of Some r \<Rightarrow> Some r | None \<Rightarrow> dict_lookup k acc)"
proof (induction ms acc rule: memberships_roles_of.induct)
  case (1 acc)
  then show ?case by simp
next
  case (2 m ms acc)
  show ?case
  proof (cases "dict_has m ''class_id''")
    case True
    with "2.prems" have h: "hashable (dict_get m ''class_id'' PNone)"
      by (auto split: if_splits)
    with "2.prems" True have
      "memberships_roles_of ms (dict_set (dict_get m ''class_id'' PNone)
          (dict_get m ''role'' (PStr ''student'')) acc) = Inr mr" by simp
    from "2.IH"(1)[OF True h this] True show ?thesis
      by (simp add: dict_lookup_dict_set_any split: option.splits)
  next
    case False
    with "2.prems" have "memberships_roles_of ms acc = Inr mr" by simp
    from "2.IH"(2)[OF False this] False show ?thesis by (simp split: option.splits)
  qed
qed (simp_all split: option.splits)

lemma role_mismatches_members:
  "RoleMismatch k a b \<in> set (role_mismatches mr cr)
     \<longleftrightarrow> (k, b) \<in> set cr \<and> dict_lookup k mr = Some a \<and> \<not> py_eq a b"
  by (induction cr) (auto split: option.splits if_splits)

lemma compare_classes_no_mismatch:
  "RoleMismatch k a b \<notin> set (compare_classes name S T)"
  by (simp add: compare_classes_def)

text \<open>
  Claim C8 says that roles differing only in letter case are not reported. With
  \<open>TA\<close> in \<open>class_memberships\<close> and \<open>ta\<close> in \<open>classRoles\<close> for the same class, the
  checker reports a role mismatch and answers inconsistent.
\<close>

theorem case_only_difference_reported_counterexample:
  "check_format_consistency
     (PDict [(PStr ''class_memberships'',
              PList [PDict [(PStr ''class_id'', PStr ''x''), (PStr ''role'', PStr ''TA'')]]),
             (PStr ''classRoles'', PDict [(PStr ''x'', PStr ''ta'')]),
             (PStr ''accessible_classes'', PList [PStr ''x''])])
   = Inr (False, [RoleMismatch (PStr ''x'') (PStr ''TA'') (PStr ''ta'')])"
  by (simp add: check_format_consistency_def compare_classes_def py_simps)

text \<open>
  Claim C8, amended. Whenever the checker returns, it reports a role mismatch for a
  class exactly when the class is a key of \<open>classRoles\<close>, the \<open>class_memberships\<close>
  list records a role for it, and the two role strings differ as they are stored,
  with no lower-casing; a reported mismatch makes the record inconsistent. The
  entries of the list may have any keys beside \<open>class_id\<close> and \<open>role\<close>.
\<close>

theorem role_mismatch_is_exact:
  assumes chk: "check_format_consistency (PDict kvs) = Inr (ok, issues)"
  shows "(RoleMismatch k (PStr ra) (PStr rb) \<in> set issues
            \<longleftrightarrow> (case dict_get kvs ''classRoles'' (PDict []) of
                   PDict cr \<Rightarrow> (k, PStr rb) \<in> set cr | _ \<Rightarrow> False)
                \<and> (case dict_get kvs ''class_memberships'' (PList []) of
                     PList ms \<Rightarrow> recorded_role ms k = Some (PStr ra) | _ \<Rightarrow> False)
                \<and> ra \<noteq> rb)
       \<and> (RoleMismatch k (PStr ra) (PStr rb) \<in> set issues \<longrightarrow> \<not> ok)"
proof -
  let ?cms = "dict_get kvs ''class_memberships'' (PList [])"
  let ?crs = "dict_get kvs ''classRoles'' (PDict [])"
  let ?acs = "dict_get kvs ''accessible_classes'' (PList [])"
  have "\<exists>mr S. (case ?cms of PList ms \<Rightarrow> memberships_roles_of ms [] | _ \<Rightarrow> Inr []) = Inr mr
      \<and> issues =
            compare_classes ''class_memberships'' (norm_key ` fst ` set mr)
              (norm_key ` fst ` set mr
               \<union> (case ?crs of PDict cr \<Rightarrow> norm_key ` fst ` set cr | _ \<Rightarrow> {}) \<union> S)
          @ compare_classes ''classRoles''
              (case ?crs of PDict cr \<Rightarrow> norm_key ` fst ` set cr | _ \<Rightarrow> {})
              (norm_key ` fst ` set mr
               \<union> (case ?crs of PDict cr \<Rightarrow> norm_key ` fst ` set cr | _ \<Rightarrow> {}) \<union> S)
          @ compare_classes ''accessible_classes'' S
              (norm_key ` fst ` set mr
               \<union> (case ?crs of PDict cr \<Rightarrow> norm_key ` fst ` set cr | _ \<Rightarrow> {}) \<union> S)
          @ (case ?crs of PDict cr \<Rightarrow> role_mismatches mr cr | _ \<Rightarrow> [])
      \<and> ok = (issues = [])"
    using chk
    by (auto simp: check_format_consistency_def and_then_def Let_def split: sum.splits)
  then obtain mr S where
    mr: "(case ?cms of PList ms \<Rightarrow> memberships_roles_of ms [] | _ \<Rightarrow> Inr []) = Inr mr"
    and issues: "issues =
            compare_classes ''class_memberships'' (norm_key ` fst ` set mr)
              (norm_key ` fst ` set mr
               \<union> (case ?crs of PDict cr \<Rightarrow> norm_key ` fst ` set cr | _ \<Rightarrow> {}) \<union> S)
          @ compare_classes ''classRoles''
              (case ?crs of PDict cr \<Rightarrow> norm_key ` fst ` set cr | _ \<Rightarrow> {})
              (norm_key ` fst ` set mr
               \<union> (case ?crs of PDict cr \<Rightarrow> norm_key ` fst ` set cr | _ \<Rightarrow> {}) \<union> S)
          @ compare_classes ''accessible_classes'' S
              (norm_key ` fst ` set mr
               \<union> (case ?crs of PDict cr \<Rightarrow> norm_key ` fst ` set cr | _ \<Rightarrow> {}) \<union> S)
          @ (case ?crs of PDict cr \<Rightarrow> role_mismatches mr cr | _ \<Rightarrow> [])"
    and ok: "ok = (issues = [])"
    by blast
  have iss: "RoleMismatch k (PStr ra) (PStr rb) \<in> set issues
        \<longleftrightarrow> RoleMismatch k (PStr ra) (PStr rb)
              \<in> set (case ?crs of PDict cr \<Rightarrow> role_mismatches mr cr | _ \<Rightarrow> [])"
    unfolding issues by (simp add: compare_classes_no_mismatch)
  have lk: "dict_lookup k mr
      = (case ?cms of PList ms \<Rightarrow> recorded_role ms k | _ \<Rightarrow> None)"
  proof (cases ?cms)
    case (PList ms)
    with mr have "memberships_roles_of ms [] = Inr mr" by simp
    from memberships_roles_of_lookup[OF this, of k] PList show ?thesis
      by (simp split: option.splits)
  qed (use mr in auto)
  have "RoleMismatch k (PStr ra) (PStr rb) \<in> set issues
            \<longleftrightarrow> (case ?crs of PDict cr \<Rightarrow> (k, PStr rb) \<in> set cr | _ \<Rightarrow> False)
                \<and> (case ?cms of PList ms \<Rightarrow> recorded_role ms k = Some (PStr ra) | _ \<Rightarrow> False)
                \<and> ra \<noteq> rb"
    unfolding iss using lk
    by (cases ?crs; cases ?cms) (auto simp: role_mismatches_members)
  moreover have "RoleMismatch k (PStr ra) (PStr rb) \<in> set issues \<longrightarrow> \<not> ok"
    using ok by auto
  ultimately show ?thesis by blast
qed

text \<open>
  Claim C8, amended, on a record with a four-key entry giving \<open>ta\<close> for class "x"
  and \<open>instructor\<close> in \<open>classRoles\<close>: the mismatch is reported and the record is
  inconsistent.
\<close>

theorem role_mismatch_is_exact_witness:
  "check_format_consistency
     (PDict [(PStr ''class_memberships'',
              PList [PDict [(PStr ''class_id'', PStr ''x''), (PStr ''role'', PStr ''ta''),
                            (PStr ''assigned_at'', PStr ''2024-09-01''),
                            (PStr ''assigned_by'', PStr ''boss'')]]),
             (PStr ''classRoles'', PDict [(PStr ''x'', PStr ''instructor'')]),
             (PStr ''accessible_classes'', PList [PStr ''x''])])
   = Inr (False, [RoleMismatch (PStr ''x'') (PStr ''ta'') (PStr ''instructor'')])
   \<and> recorded_role
        [PDict [(PStr ''class_id'', PStr ''x''), (PStr ''role'', PStr ''ta''),
                (PStr ''assigned_at'', PStr ''2024-09-01''),
                (PStr ''assigned_by'', PStr ''boss'')]] (PStr ''x'') = Some (PStr ''ta'')
   \<and> ''ta'' \<noteq> ''instructor''"
proof -
  have c: "check_format_consistency
     (PDict [(PStr ''class_memberships'',
              PList [PDict [(PStr ''class_id'', PStr ''x''), (PStr ''role'', PStr ''ta''),
                            (PStr ''assigned_at'', PStr ''2024-09-01''),
                            (PStr ''assigned_by'', PStr ''boss'')]]),
             (PStr ''classRoles'', PDict [(PStr ''x'', PStr ''instructor'')]),
             (PStr ''accessible_classes'', PList [PStr ''x''])])
   = Inr (False, [RoleMismatch (PStr ''x'') (PStr ''ta'') (PStr ''instructor'')])"
    by (simp add: check_format_consistency_def compare_classes_def py_simps)
  from role_mismatch_is_exact [OF c, of "PStr ''x''" "''ta''" "''instructor''"] c
  show ?thesis by (simp add: py_simps)
qed

section \<open>The highest-priority source wins\<close>

lemma canonical_from_list_valid:
  "list_all valid_entry ms \<Longrightarrow> canonical_from_list ms = map canonical_entry ms"
proof (induction ms)
  case Nil
  then show ?case by simp
next
  case (Cons m ms)
  then show ?case by (cases m) (simp_all add: canonical_entry_def)
qed

lemma build_formats_canonical:
  "list_all valid_entry ms \<Longrightarrow>
   build_formats (map canonical_entry ms) R A
     = Inr (foldl (\<lambda>R m. dict_set (entry_get m ''class_id'' PNone)
                             (entry_get m ''role'' (PStr ''student'')) R) R ms,
            A @ map (\<lambda>m. entry_get m ''class_id'' PNone) ms)"
proof (induction ms arbitrary: R A)
  case Nil
  then show ?case by simp
next
  case (Cons m ms)
  then obtain e where m: "m = PDict e" by (cases m) auto
  with Cons.prems have h: "hashable (dict_get e ''class_id'' PNone)" "list_all valid_entry ms"
    by auto
  show ?case
    using Cons.IH[OF h(2)] h(1)
    by (simp add: m canonical_entry_def and_then_def)
qed

text \<open>
  Claim C3. When \<open>class_memberships\<close> is a non-empty list of entries, the normalizer
  returns a record whose canonical list has those entries in order, each with its
  \<open>class_id\<close>, its role (\<open>student\<close> for an entry without one) and its audit fields,
  and whose \<open>accessible_classes\<close> and \<open>classRoles\<close> hold the classes of that list
  and no other: a class found only in the input's \<open>classRoles\<close> or
  \<open>accessible_classes\<close> is not in the normalized record.
\<close>

theorem list_source_wins:
  assumes cms: "dict_get kvs ''class_memberships'' (PList []) = PList ms"
    and ne: "ms \<noteq> []"
    and ok: "list_all valid_entry ms"
  shows "\<exists>out canonical new_roles.
      normalize_class_memberships (PDict kvs) = Inr (PDict out)
    \<and> dict_get out ''class_memberships'' PNone = PList canonical
    \<and> map (\<lambda>m. entry_get m ''class_id'' PNone) canonical
        = map (\<lambda>m. entry_get m ''class_id'' PNone) ms
    \<and> map (\<lambda>m. entry_get m ''role'' PNone) canonical
        = map (\<lambda>m. entry_get m ''role'' (PStr ''student'')) ms
    \<and> map (\<lambda>m. entry_get m ''assigned_at'' PNone) canonical
        = map (\<lambda>m. entry_get m ''assigned_at'' PNone) ms
    \<and> map (\<lambda>m. entry_get m ''assigned_by'' PNone) canonical
        = map (\<lambda>m. entry_get m ''assigned_by'' PNone) ms
    \<and> dict_get out ''accessible_classes'' PNone
        = PList (map (\<lambda>m. entry_get m ''class_id'' PNone) ms)
    \<and> dict_get out ''classRoles'' PNone = PDict new_roles
    \<and> norm_key ` fst ` set new_roles
        = norm_key ` (\<lambda>m. entry_get m ''class_id'' PNone) ` set ms"
proof -
  have kvs: "kvs \<noteq> []"
    using cms ne by (auto simp: dict_get_def)
  obtain m ms' where ms: "ms = m # ms'" using ne by (cases ms) auto
  have canon: "canonical_memberships (PDict kvs) (PList ms) cr ac = Inr (map canonical_entry ms)"
    for cr ac
    using canonical_from_list_valid[OF ok] by (simp add: canonical_memberships_def ms)
  let ?roles = "foldl (\<lambda>R m. dict_set (entry_get m ''class_id'' PNone)
                             (entry_get m ''role'' (PStr ''student'')) R) [] ms"
  let ?ids = "map (\<lambda>m. entry_get m ''class_id'' PNone) ms"
  let ?out = "dict_set (PStr ''accessible_classes'') (PList ?ids)
               (dict_set (PStr ''classRoles'') (PDict ?roles)
                 (dict_set (PStr ''class_memberships'') (PList (map canonical_entry ms)) kvs))"
  have n: "normalize_class_memberships (PDict kvs) = Inr (PDict ?out)"
    using kvs cms canon build_formats_canonical[OF ok, of "[]" "[]"]
    by (simp add: normalize_class_memberships_def and_then_def)
  have a: "map (\<lambda>m. entry_get m ''class_id'' PNone) (map canonical_entry ms) = ?ids"
    by (simp add: canonical_entry_def dict_get_def comp_def)
  have b: "map (\<lambda>m. entry_get m ''role'' PNone) (map canonical_entry ms)
             = map (\<lambda>m. entry_get m ''role'' (PStr ''student'')) ms"
    by (simp add: canonical_entry_def dict_get_def comp_def)
  have b1: "map (\<lambda>m. entry_get m ''assigned_at'' PNone) (map canonical_entry ms)
             = map (\<lambda>m. entry_get m ''assigned_at'' PNone) ms"
    by (simp add: canonical_entry_def dict_get_def comp_def)
  have b2: "map (\<lambda>m. entry_get m ''assigned_by'' PNone) (map canonical_entry ms)
             = map (\<lambda>m. entry_get m ''assigned_by'' PNone) ms"
    by (simp add: canonical_entry_def dict_get_def comp_def)
  have c: "norm_key ` fst ` set ?roles = norm_key ` (\<lambda>m. entry_get m ''class_id'' PNone) ` set ms"
    by (simp add: foldl_dict_set_keys)
  show ?thesis
    using n a b b1 b2 c by (intro exI[of _ ?out] exI[of _ "map canonical_entry ms"] exI[of _ ?roles])
      (simp add: dict_get_dict_set)
qed

text \<open>
  Claim C3, on a record with class "K1" in the list, "K4" in \<open>classRoles\<close> only and
  "K2", "K3" in \<open>accessible_classes\<close> only.
\<close>

theorem list_source_wins_witness:
  "\<exists>out.
     normalize_class_memberships
       (PDict [(PStr ''id'', PStr ''u7''),
               (PStr ''class_memberships'',
                PList [PDict [(PStr ''class_id'', PStr ''K1''), (PStr ''role'', PStr ''ta''),
                              (PStr ''assigned_at'', PStr ''2024-09-01''),
                              (PStr ''assigned_by'', PStr ''boss'')]]),
               (PStr ''classRoles'', PDict [(PStr ''K4'', PStr ''student'')]),
               (PStr ''accessible_classes'', PList [PStr ''K2'', PStr ''K3''])])
       = Inr (PDict out)
     \<and> dict_get out ''class_memberships'' PNone
         = PList [PDict [(PStr ''class_id'', PStr ''K1''), (PStr ''role'', PStr ''ta''),
                         (PStr ''assigned_at'', PStr ''2024-09-01''),
                         (PStr ''assigned_by'', PStr ''boss'')]]
     \<and> dict_get out ''accessible_classes'' PNone = PList [PStr ''K1'']
     \<and> dict_get out ''classRoles'' PNone = PDict [(PStr ''K1'', PStr ''ta'')]"
proof -
  let ?m = "PDict [(PStr ''class_id'', PStr ''K1''), (PStr ''role'', PStr ''ta''),
                   (PStr ''assigned_at'', PStr ''2024-09-01''),
                   (PStr ''assigned_by'', PStr ''boss'')]"
  let ?kvs = "[(PStr ''id'', PStr ''u7''), (PStr ''class_memberships'', PList [?m]),
               (PStr ''classRoles'', PDict [(PStr ''K4'', PStr ''student'')]),
               (PStr ''accessible_classes'', PList [PStr ''K2'', PStr ''K3''])]"
  have h: "dict_get ?kvs ''class_memberships'' (PList []) = PList [?m]" "[?m] \<noteq> []"
      "list_all valid_entry [?m]"
    by (simp_all add: py_simps)
  from list_source_wins [OF h] obtain out where
    "normalize_class_memberships (PDict ?kvs) = Inr (PDict out)" by blast
  then show ?thesis
    by (auto simp: normalize_class_memberships_def canonical_memberships_def py_simps)
qed

section \<open>The enrollment backfill and the roles already held\<close>

lemma analyze_memberships_holder:
  assumes "membership_role ms K = Some (PStr r0)" "lower r0 \<in> {''instructor'', ''ta''}"
    and "analyze_memberships ms K = Inr (needs, reason)"
  shows "\<not> needs"
  using assms
proof (induction ms)
  case Nil
  then show ?case by simp
next
  case (Cons m ms)
  show ?case
  proof (cases m)
    case (PDict e)
    show ?thesis
    proof (cases "dict_get e ''class_id'' PNone = PStr K")
      case True
      with Cons.prems PDict have "dict_get e ''role'' PNone = PStr r0" by simp
      then have "dict_lookup (PStr ''role'') e = Some (PStr r0)"
        by (rule dict_get_lookup) simp
      then have "dict_get e ''role'' (PStr []) = PStr r0" by (simp add: dict_get_def)
      with Cons.prems PDict True show ?thesis
        by (auto simp: and_then_def)
    next
      case False
      with Cons PDict show ?thesis by (simp add: and_then_def)
    qed
  qed (use Cons.prems in \<open>simp_all add: and_then_def\<close>)
qed

lemma membership_role_append:
  "membership_role ms K = Some r \<Longrightarrow> membership_role (ms @ [e]) K = Some r"
  by (induction ms K rule: membership_role.induct) auto

lemma membership_role_nonempty: "membership_role ms K = Some r \<Longrightarrow> ms \<noteq> []"
  by auto

lemma process_enrollments_queue:
  assumes u: "db u = Some (PDict kvs)"
    and cms: "dict_get kvs ''class_memberships'' (PList []) = PList ms"
    and role: "membership_role ms K = Some (PStr r0)" "lower r0 \<in> {''instructor'', ''ta''}"
  shows "process_enrollments db es st ups0 = Inr (st', ups) \<Longrightarrow>
     (\<forall>x\<in>set ups0. upd_user_id x = u \<longrightarrow> upd_user x = PDict kvs \<and> upd_course x \<noteq> K) \<Longrightarrow>
     (\<forall>x\<in>set ups. upd_user_id x = u \<longrightarrow> upd_user x = PDict kvs \<and> upd_course x \<noteq> K)"
proof (induction es arbitrary: st ups0)
  case Nil
  then show ?case by simp
next
  case (Cons row rest)
  obtain student crs n where row: "row = (student, crs, n)" by (cases row)
  let ?doc = "db_get db (PStr student)"
  show ?case
  proof (cases "truthy ?doc")
    case False
    with Cons.prems row show ?thesis
      using Cons.IH[of "st\<lparr>user_not_found := user_not_found st + 1\<rparr>" ups0] by simp
  next
    case True
    from Cons.prems(1) True row obtain needs reason where
      an: "analyze_user_enrollment ?doc crs = Inr (needs, reason)"
      by (auto simp: and_then_def Let_def split: sum.splits)
    show ?thesis
    proof (cases needs)
      case False
      from Cons.prems(1) True an False row obtain st1 where
        "process_enrollments db rest st1 ups0 = Inr (st', ups)"
        by (auto simp: and_then_def Let_def split: sum.splits if_splits)
      then show ?thesis using Cons.IH Cons.prems(2) by blast
    next
      case needs: True
      let ?x = "\<lparr>upd_user_id = student, upd_user = ?doc, upd_course = crs,
                  submission_count = n\<rparr>"
      from Cons.prems(1) True an needs row have
        r: "process_enrollments db rest (st\<lparr>needs_enrollment := needs_enrollment st + 1\<rparr>)
              (ups0 @ [?x]) = Inr (st', ups)"
        by (auto simp: and_then_def Let_def)
      have new: "student = u \<longrightarrow> ?doc = PDict kvs \<and> crs \<noteq> K"
      proof
        assume s: "student = u"
        then have d: "?doc = PDict kvs" using u by simp
        have "crs \<noteq> K"
        proof
          assume "crs = K"
          with an d cms have "analyze_memberships ms K = Inr (needs, reason)"
            by (simp add: analyze_user_enrollment_def and_then_def)
          with analyze_memberships_holder[OF role] needs show False by blast
        qed
        with d show "?doc = PDict kvs \<and> crs \<noteq> K" by simp
      qed
      have inv: "\<forall>x\<in>set (ups0 @ [?x]).
          upd_user_id x = u \<longrightarrow> upd_user x = PDict kvs \<and> upd_course x \<noteq> K"
        using Cons.prems(2) new by auto
      show ?thesis using Cons.IH[OF r inv] .
    qed
  qed
qed

lemma filter_for_class_append:
  "c \<noteq> K \<Longrightarrow>
   filter (for_class K) (ms @ [PDict [(PStr ''class_id'', PStr c), (PStr ''role'', PStr ''student'')]])
     = filter (for_class K) ms"
  by (simp add: dict_get_def)

lemma apply_update_keeps_role:
  assumes cms: "dict_get kvs ''class_memberships'' (PList []) = PList ms"
    and role: "membership_role ms K = Some (PStr r0)"
    and x: "upd_user x = PDict kvs" "upd_course x \<noteq> K"
    and ap: "apply_update db x = Inr db'"
  shows "keeps_role ms K r0 (db' (upd_user_id x))"
proof -
  have ne: "PList ms \<noteq> PList []" using role by auto
  have lk: "dict_lookup (PStr ''class_memberships'') kvs = Some (PList ms)"
    using dict_get_lookup[OF cms ne] .
  let ?e = "PDict [(PStr ''class_id'', PStr (upd_course x)), (PStr ''role'', PStr ''student'')]"
  have "db' = db(upd_user_id x \<mapsto>
          PDict (dict_set (PStr ''class_memberships'') (PList (ms @ [?e])) kvs))"
    using ap x(1) lk by (simp add: apply_update_def and_then_def)
  then show ?thesis
    using membership_role_append[OF role, of ?e] filter_for_class_append[OF x(2), of ms]
    by (simp add: keeps_role_def dict_get_dict_set)
qed

lemma apply_update_other:
  "apply_update db x = Inr db' \<Longrightarrow> upd_user_id x \<noteq> u \<Longrightarrow> db' u = db u"
  by (auto simp: apply_update_def and_then_def split: sum.splits if_splits)

lemma apply_updates_keeps_role:
  assumes cms: "dict_get kvs ''class_memberships'' (PList []) = PList ms"
    and role: "membership_role ms K = Some (PStr r0)"
  shows "keeps_role ms K r0 (db u) \<Longrightarrow>
     (\<forall>x\<in>set ups. upd_user_id x = u \<longrightarrow> upd_user x = PDict kvs \<and> upd_course x \<noteq> K) \<Longrightarrow>
     keeps_role ms K r0 (fst (apply_updates db ups st) u)"
proof (induction ups arbitrary: db st)
  case Nil
  then show ?case by simp
next
  case (Cons x ups)
  show ?case
  proof (cases "apply_update db x")
    case (Inl e)
    with Cons show ?thesis by simp
  next
    case (Inr db')
    have "keeps_role ms K r0 (db' u)"
    proof (cases "upd_user_id x = u")
      case True
      with Cons.prems(2) have "upd_user x = PDict kvs" "upd_course x \<noteq> K" by auto
      from apply_update_keeps_role[OF cms role this Inr] True show ?thesis by simp
    next
      case False
      with apply_update_other[OF Inr] Cons.prems(1) show ?thesis by simp
    qed
    with Cons Inr show ?thesis by simp
  qed
qed

text \<open>
  Where the role is recorded in the \<open>class_memberships\<close> list, the backfill leaves it
  alone. Let the first entry for \<open>K\<close> in the list of a stored principal give
  \<open>instructor\<close> or \<open>ta\<close> (in any letter case). Whatever rows the submission log
  yields, with whatever counts, and in a dry run or a live one, no update is queued
  for that principal and \<open>K\<close>, and the store afterwards holds the principal's entries
  for \<open>K\<close> as they were, with the same role.
\<close>

lemma backfill_keeps_listed_role:
  assumes u: "db u = Some (PDict kvs)"
    and cms: "dict_get kvs ''class_memberships'' (PList []) = PList ms"
    and role: "membership_role ms K = Some (PStr r0)"
    and high: "lower r0 \<in> {''instructor'', ''ta''}"
  shows "(\<forall>st ups. fst (migrate_enrollments db dry_run enrollments) = Inr (st, ups) \<longrightarrow>
            (\<forall>x\<in>set ups. \<not> (upd_user_id x = u \<and> upd_course x = K)))
       \<and> keeps_role ms K r0 (snd (migrate_enrollments db dry_run enrollments) u)"
proof -
  let ?st0 = "\<lparr>total = length enrollments, user_not_found = 0, already_instructor = 0,
              already_ta = 0, already_student = 0, unknown_role = 0, needs_enrollment = 0,
              updated = 0, errors = 0\<rparr>"
  have start: "keeps_role ms K r0 (db u)"
    using u cms role by (simp add: keeps_role_def)
  show ?thesis
  proof (cases "process_enrollments db enrollments ?st0 []")
    case (Inl e)
    with start show ?thesis by (simp add: migrate_enrollments_def)
  next
    case (Inr r)
    obtain st1 ups1 where r: "r = (st1, ups1)" by (cases r)
    have inv: "\<forall>x\<in>set ups1. upd_user_id x = u \<longrightarrow> upd_user x = PDict kvs \<and> upd_course x \<noteq> K"
      using process_enrollments_queue[where db=db and u=u and kvs=kvs and ms=ms and K=K
          and ?r0.0=r0 and es=enrollments and st="?st0" and ?ups0.0="[]" and st'=st1 and ups=ups1]
        u cms role high Inr r by simp
    have after: "keeps_role ms K r0 (fst (apply_updates db ups1 st1) u)"
      using apply_updates_keeps_role[where db=db and u=u, OF cms role start inv] .
    show ?thesis
      using Inr r inv start after
      by (auto simp: migrate_enrollments_def split: prod.splits)
  qed
qed

text \<open>
  Claim C7. The backfill is to leave alone every principal who holds \<open>instructor\<close>
  or \<open>ta\<close> for the class. \<open>analyze_user_enrollment\<close> reads the \<open>class_memberships\<close>
  list only: for a principal who is instructor of "cda" through \<open>classRoles\<close>, a live
  run writes a \<open>student\<close> entry for "cda", and the role \<open>get_user_class_role\<close> finds
  for the class drops from \<open>instructor\<close> to \<open>student\<close>.
\<close>

theorem backfill_demotes_legacy_instructor:
  "get_user_class_role Map.empty
     (PDict [(PStr ''id'', PStr ''ann1''),
             (PStr ''classRoles'', PDict [(PStr ''cda'', PStr ''instructor'')])]) ''cda''
     = Inr (PStr ''instructor'')
   \<and> snd (migrate_enrollments
        (Map.empty(''ann1'' \<mapsto> PDict [(PStr ''id'', PStr ''ann1''),
             (PStr ''classRoles'', PDict [(PStr ''cda'', PStr ''instructor'')])]))
        False [(''ann1'', ''cda'', 164)]) ''ann1''
     = Some (PDict [(PStr ''id'', PStr ''ann1''),
             (PStr ''classRoles'', PDict [(PStr ''cda'', PStr ''instructor'')]),
             (PStr ''class_memberships'',
              PList [PDict [(PStr ''class_id'', PStr ''cda''), (PStr ''role'', PStr ''student'')]])])
   \<and> get_user_class_role Map.empty
     (PDict [(PStr ''id'', PStr ''ann1''),
             (PStr ''classRoles'', PDict [(PStr ''cda'', PStr ''instructor'')]),
             (PStr ''class_memberships'',
              PList [PDict [(PStr ''class_id'', PStr ''cda''), (PStr ''role'', PStr ''student'')]])])
     ''cda''
     = Inr (PStr ''student'')"
  by (simp add: get_user_class_role_def role_from_legacy_def migrate_enrollments_def
      analyze_user_enrollment_def apply_update_def py_simps)

section \<open>Normalizing twice\<close>






lemma canon_shaped_cases:
  assumes "canon_shaped m"
  obtains c r where "m = PDict [(PStr ''class_id'', c), (PStr ''role'', r)]"
  | c r a b where "m = PDict [(PStr ''class_id'', c), (PStr ''role'', r),
                              (PStr ''assigned_at'', a), (PStr ''assigned_by'', b)]"
  using assms by (cases m rule: canon_shaped.cases) auto

lemma canon_shaped_valid:
  "canon_shaped m \<Longrightarrow> valid_entry m = hashable (entry_get m ''class_id'' PNone)"
  by (erule canon_shaped_cases) (simp_all add: py_simps)










end
